theory Spec2Isabelle
  imports Main "HOL-Library.Word"
begin

section \<open>The Lambda function-URL resource\<close>

text \<open>
  The file \<^verbatim>\<open>internal/service/lambda/function_url.go\<close> declares the schema of the
  resource and its create, read, update, delete and import functions. Each function reads the resource data \<open>d\<close>, builds a request, sends it
  through the Lambda connection and turns the answer into diagnostics. The model keeps
  that shape: the resource data is a record that is passed in and returned, the connection
  is a record of functions (one per remote operation, each returning an error or an
  output), and every function also returns the list of remote calls it issued, in order.
  A Go panic (a failed type assertion, an index out of range) is a value of the result.
  The \<open>log.Printf\<close> lines have no effect on any result and are left out.
\<close>

subsection \<open>Go values, panics and errors\<close>

text \<open>A Go \<open>int\<close> is 64 bits wide on the platforms the provider is built for.\<close>

type_synonym go_int = "64 word"

text \<open>
  What an \<open>interface{}\<close> taken from the resource data can hold: \<open>nil\<close>, a bool, an int,
  a string, a \<open>[]interface{}\<close>, a \<open>*schema.Set\<close> (its elements) or a
  \<open>map[string]interface{}\<close> (its entries).
\<close>

datatype go_value =
    VNil
  | VBool bool
  | VInt go_int
  | VString string
  | VList "go_value list"
  | VSet "go_value list"
  | VMap "(string \<times> go_value) list"

datatype panic =
    TypeAssertion
  | IndexOutOfRange int nat   \<comment> \<open>the index and the length\<close>

text \<open>
  An \<open>error\<close> value: one that implements \<open>awserr.Error\<close> (code and message), one that
  wraps another error (found by \<open>errors.As\<close>, not by a type assertion), or any other.
\<close>

datatype go_error =
    AwsError string string
  | Wrapped string go_error
  | Plain string

text \<open>The type assertion \<open>err.(awserr.Error)\<close> followed by \<open>Code()\<close>.\<close>

fun awsErrCode :: "go_error \<Rightarrow> string option" where
  "awsErrCode (AwsError code msg) = Some code"
| "awsErrCode (Wrapped msg e) = None"
| "awsErrCode (Plain msg) = None"

text \<open>\<open>errors.As(err, &awsErr)\<close> followed by \<open>Code()\<close>: the first \<open>awserr.Error\<close> of the chain.\<close>

fun errorsAsCode :: "go_error \<Rightarrow> string option" where
  "errorsAsCode (AwsError code msg) = Some code"
| "errorsAsCode (Wrapped msg e) = errorsAsCode e"
| "errorsAsCode (Plain msg) = None"

text \<open>\<open>tfawserr.ErrCodeEquals(err, code)\<close>; \<open>err\<close> may be \<open>nil\<close>.\<close>

definition ErrCodeEquals :: "go_error option \<Rightarrow> string \<Rightarrow> bool" where
  "ErrCodeEquals err code =
     (case err of
        None \<Rightarrow> False
      | Some e \<Rightarrow> (case errorsAsCode e of None \<Rightarrow> False | Some c \<Rightarrow> c = code))"

text \<open>The constants of the AWS SDK's lambda package that the file names.\<close>

definition ErrCodeResourceNotFoundException :: string where
  "ErrCodeResourceNotFoundException = ''ResourceNotFoundException''"

definition FunctionUrlAuthTypeNone :: string where
  "FunctionUrlAuthTypeNone = ''NONE''"

definition FunctionUrlAuthTypeAwsIam :: string where
  "FunctionUrlAuthTypeAwsIam = ''AWS_IAM''"

definition FunctionUrlAuthType_Values :: "string list" where
  "FunctionUrlAuthType_Values = [FunctionUrlAuthTypeNone, FunctionUrlAuthTypeAwsIam]"

subsection \<open>Type assertions and indexing\<close>

definition asMap :: "go_value \<Rightarrow> panic + (string \<times> go_value) list" where
  "asMap v = (case v of VMap m \<Rightarrow> Inr m | _ \<Rightarrow> Inl TypeAssertion)"

definition asBool :: "go_value \<Rightarrow> panic + bool" where
  "asBool v = (case v of VBool b \<Rightarrow> Inr b | _ \<Rightarrow> Inl TypeAssertion)"

definition asList :: "go_value \<Rightarrow> panic + go_value list" where
  "asList v = (case v of VList xs \<Rightarrow> Inr xs | _ \<Rightarrow> Inl TypeAssertion)"

definition asInt :: "go_value \<Rightarrow> panic + go_int" where
  "asInt v = (case v of VInt n \<Rightarrow> Inr n | _ \<Rightarrow> Inl TypeAssertion)"

text \<open>\<open>config[key]\<close> on a Go map: a missing key reads as \<open>nil\<close>.\<close>

definition mapIndex :: "(string \<times> go_value) list \<Rightarrow> string \<Rightarrow> go_value" where
  "mapIndex m key = (case map_of m key of None \<Rightarrow> VNil | Some v \<Rightarrow> v)"

text \<open>\<open>xs[i]\<close> on a slice, with Go's run-time bounds check.\<close>

definition sliceIndex :: "'a list \<Rightarrow> int \<Rightarrow> panic + 'a" where
  "sliceIndex xs i =
     (if 0 \<le> i \<and> i < int (length xs) then Inr (xs ! nat i)
      else Inl (IndexOutOfRange i (length xs)))"

text \<open>Sequencing of steps that may panic: the first panic ends the function.\<close>

definition andThen :: "panic + 'a \<Rightarrow> ('a \<Rightarrow> panic + 'b) \<Rightarrow> panic + 'b" where
  "andThen m f = (case m of Inl p \<Rightarrow> Inl p | Inr x \<Rightarrow> f x)"

subsection \<open>strings.Split\<close>

text \<open>
  \<open>strings.Split(s, sep)\<close> cuts \<open>s\<close> at every occurrence of \<open>sep\<close>, left to right and
  without overlap, and returns the pieces between them: one more piece than there are
  occurrences. \<open>splitFrom sep acc s\<close> scans \<open>s\<close> with the current piece, reversed, in
  \<open>acc\<close>. With an empty separator Go returns the characters of \<open>s\<close> one by one.
\<close>

function splitFrom :: "string \<Rightarrow> string \<Rightarrow> string \<Rightarrow> string list" where
  "splitFrom sep acc [] = [rev acc]"
| "splitFrom sep acc (c # cs) =
     (if sep \<noteq> [] \<and> take (length sep) (c # cs) = sep
      then rev acc # splitFrom sep [] (drop (length sep) (c # cs))
      else splitFrom sep (c # acc) cs)"
  by pat_completeness auto
termination
  by (relation "measure (\<lambda>(sep, acc, s). length s)") auto

definition Split :: "string \<Rightarrow> string \<Rightarrow> string list" where
  "Split s sep = (if sep = [] then map (\<lambda>c. [c]) s else splitFrom sep [] s)"

subsection \<open>The resource data\<close>

text \<open>
  \<open>schema.ResourceData\<close> as the functions of this file see it: the resource ID, the
  new-resource mark, the value \<open>d.Get\<close> returns for each attribute of the schema (for
  \<open>cors\<close> the list of its blocks, each a map from the settings to their values), and
  for each attribute whether \<open>d.HasChange\<close> reports a change (the plugin SDK computes that
  from the prior state and the plan, neither of which this file reads).
\<close>

record ResourceData =
  ID :: string
  NewResource :: bool
  authorization_type :: string
  cors :: "go_value list"
  function_arn :: string
  function_name :: string
  function_url :: string
  qualifier :: string
  changed :: "string \<Rightarrow> bool"

definition SetId :: "ResourceData \<Rightarrow> string \<Rightarrow> ResourceData" where
  "SetId d v = d\<lparr>ID := v\<rparr>"

definition IsNewResource :: "ResourceData \<Rightarrow> bool" where
  "IsNewResource d = NewResource d"

definition HasChange :: "ResourceData \<Rightarrow> string \<Rightarrow> bool" where
  "HasChange d key = changed d key"

text \<open>
  \<open>d.GetOk(key)\<close> returns the value and whether it differs from the zero value of its
  type: the empty string for a string attribute, the empty list for a list attribute.
\<close>

definition GetOk_string :: "string \<Rightarrow> string \<times> bool" where
  "GetOk_string v = (v, v \<noteq> [])"

definition GetOk_list :: "go_value list \<Rightarrow> go_value list \<times> bool" where
  "GetOk_list v = (v, v \<noteq> [])"

subsection \<open>Import\<close>

text \<open>
  \<^verbatim>\<open>
  idSplit := strings.Split(d.Id(), ":")
  functionName := idSplit[len(idSplit)-2]
  qualifier := idSplit[len(idSplit)-1]
  d.Set("function_name", functionName)
  d.Set("qualifier", qualifier)
  return []*schema.ResourceData{d}, nil
  \<close>
\<close>

definition resourceFunctionUrlImport ::
  "ResourceData \<Rightarrow> panic + (ResourceData list \<times> go_error option)" where
  "resourceFunctionUrlImport d =
     (let idSplit = Split (ID d) '':'' in
      andThen (sliceIndex idSplit (int (length idSplit) - 2)) (\<lambda>functionName.
      andThen (sliceIndex idSplit (int (length idSplit) - 1)) (\<lambda>qualifier'.
        Inr ([d\<lparr>function_name := functionName, qualifier := qualifier'\<rparr>], None))))"

subsection \<open>Requests, outputs and the connection\<close>

text \<open>
  The SDK's structs have pointer fields; a \<open>nil\<close> pointer (a field the request does not
  carry) is \<open>None\<close>. Only the fields this file reads or writes are kept.
\<close>

record Cors =
  AllowCredentials :: "bool option"
  AllowHeaders :: "string list option"
  AllowMethods :: "string list option"
  AllowOrigins :: "string list option"
  ExposeHeaders :: "string list option"
  MaxAge :: "go_int option"

record CreateFunctionUrlConfigInput =
  create_AuthType :: "string option"
  create_Cors :: "Cors option"
  create_FunctionName :: "string option"
  create_Qualifier :: "string option"

record CreateFunctionUrlConfigOutput =
  created_FunctionArn :: "string option"

record AddPermissionInput =
  perm_Action :: "string option"
  perm_FunctionName :: "string option"
  perm_FunctionUrlAuthType :: "string option"
  perm_Principal :: "string option"
  perm_StatementId :: "string option"

record GetFunctionUrlConfigInput =
  get_FunctionName :: "string option"
  get_Qualifier :: "string option"

record GetFunctionUrlConfigOutput =
  got_AuthType :: "string option"
  got_Cors :: "Cors option"
  got_FunctionArn :: "string option"
  got_FunctionUrl :: "string option"

record UpdateFunctionUrlConfigInput =
  update_AuthType :: "string option"
  update_Cors :: "Cors option"
  update_FunctionName :: "string option"
  update_Qualifier :: "string option"

record DeleteFunctionUrlConfigInput =
  delete_FunctionName :: "string option"
  delete_Qualifier :: "string option"

text \<open>
  The connection: what the remote service answers to each request. Every function of this
  file sends each kind of request at most once, so an answer that depends only on the
  request describes any behaviour of the service during one invocation.
\<close>

record LambdaConn =
  CreateFunctionUrlConfig :: "CreateFunctionUrlConfigInput \<Rightarrow> go_error + CreateFunctionUrlConfigOutput"
  AddPermission :: "AddPermissionInput \<Rightarrow> go_error + unit"
  GetFunctionUrlConfig :: "GetFunctionUrlConfigInput \<Rightarrow> go_error + GetFunctionUrlConfigOutput"
  UpdateFunctionUrlConfig :: "UpdateFunctionUrlConfigInput \<Rightarrow> go_error + unit"
  DeleteFunctionUrlConfig :: "DeleteFunctionUrlConfigInput \<Rightarrow> go_error + unit"

text \<open>A remote call that was issued, with its request.\<close>

datatype api_call =
    CreateFunctionUrlConfigCall CreateFunctionUrlConfigInput
  | AddPermissionCall AddPermissionInput
  | GetFunctionUrlConfigCall GetFunctionUrlConfigInput
  | UpdateFunctionUrlConfigCall UpdateFunctionUrlConfigInput
  | DeleteFunctionUrlConfigCall DeleteFunctionUrlConfigInput

fun isAddPermission :: "api_call \<Rightarrow> bool" where
  "isAddPermission (AddPermissionCall i) = True"
| "isAddPermission (CreateFunctionUrlConfigCall i) = False"
| "isAddPermission (GetFunctionUrlConfigCall i) = False"
| "isAddPermission (UpdateFunctionUrlConfigCall i) = False"
| "isAddPermission (DeleteFunctionUrlConfigCall i) = False"

text \<open>\<open>aws.StringValue\<close>: the string behind a pointer, the empty string for \<open>nil\<close>.\<close>

definition StringValue :: "string option \<Rightarrow> string" where
  "StringValue p = (case p of None \<Rightarrow> [] | Some s \<Rightarrow> s)"

subsection \<open>Diagnostics\<close>

text \<open>
  \<open>diag.Errorf(format, a...)\<close> returns one diagnostic of severity Error whose summary is
  \<open>fmt.Sprintf(format, a...)\<close>. The summary is kept as the format string of the source
  together with its arguments, and \<open>render\<close> below gives the text \<open>fmt.Sprintf\<close> makes
  of them. The validation functions build their errors from a format and arguments in the
  same way.
\<close>

datatype fmt_arg =
    ArgString string
  | ArgStrings "string list"
  | ArgInt go_int
  | ArgError go_error

datatype formatted = Sprintf string "fmt_arg list"

datatype Severity = Error | Warning

record Diagnostic =
  Severity :: Severity
  Summary :: formatted

definition Errorf :: "string \<Rightarrow> fmt_arg list \<Rightarrow> Diagnostic list" where
  "Errorf format a = [\<lparr>Severity = Error, Summary = Sprintf format a\<rparr>]"

text \<open>
  The text of a formatted value, as the pieces \<open>fmt.Sprintf\<close> writes one after another:
  the literal characters of the format, and for each verb what it makes of its argument.
  \<^item> \<open>%s\<close> and \<open>%v\<close> write a string as it is, and for an \<open>error\<close> the text its
    \<open>Error()\<close> method returns (\<open>ErrorText\<close>);
  \<^item> \<open>%d\<close> writes an int;
  \<^item> \<open>%w\<close> is a verb of \<open>fmt.Errorf\<close> only: \<open>fmt.Sprintf\<close> reports it as a bad verb
    and writes \<open>%!w(type=value)\<close>, where the value is the raw content of the argument;
    the \<open>Error()\<close> method is not called (\<open>BadVerb\<close>). A verb that does not fit its
    argument is reported in the same way;
  \<^item> \<open>%%\<close> writes a percent sign; a verb without an argument writes \<open>%!v(MISSING)\<close>,
    arguments without a verb write \<open>%!(EXTRA ...)\<close>, a lone \<open>%\<close> at the end
    \<open>%!(NOVERB)\<close>.
  The formats of this file use plain verbs only; any other verb is kept uninterpreted
  (\<open>Other\<close>).
\<close>

datatype piece =
    Lit string
  | Str string
  | StrList "string list"
  | Num go_int
  | ErrorText go_error
  | BadVerb char fmt_arg
  | Other char fmt_arg
  | Missing char
  | Extra "fmt_arg list"
  | NoVerb

definition verb :: "char \<Rightarrow> fmt_arg \<Rightarrow> piece" where
  "verb c a =
     (if c = CHR ''w'' then BadVerb c a
      else if c = CHR ''s'' \<or> c = CHR ''v'' then
        (case a of
           ArgString s \<Rightarrow> Str s
         | ArgStrings xs \<Rightarrow> StrList xs
         | ArgInt n \<Rightarrow> (if c = CHR ''v'' then Num n else BadVerb c a)
         | ArgError e \<Rightarrow> ErrorText e)
      else if c = CHR ''d'' then
        (case a of
           ArgInt n \<Rightarrow> Num n
         | ArgString s \<Rightarrow> BadVerb c a
         | ArgStrings xs \<Rightarrow> Other c a
         | ArgError e \<Rightarrow> Other c a)
      else Other c a)"

text \<open>A literal character joins the literal text that follows it.\<close>

definition lit :: "char \<Rightarrow> piece list \<Rightarrow> piece list" where
  "lit c ps = (case ps of Lit s # rest \<Rightarrow> Lit (c # s) # rest | _ \<Rightarrow> Lit [c] # ps)"

fun pieces :: "string \<Rightarrow> fmt_arg list \<Rightarrow> piece list" where
  "pieces [] args = (if args = [] then [] else [Extra args])"
| "pieces (c # cs) args =
     (if c \<noteq> CHR ''%'' then lit c (pieces cs args)
      else (case cs of
              [] \<Rightarrow> [NoVerb]
            | v # rest \<Rightarrow>
                if v = CHR ''%'' then lit v (pieces rest args)
                else (case args of
                        [] \<Rightarrow> Missing v # pieces rest []
                      | a # as \<Rightarrow> verb v a # pieces rest as)))"

fun render :: "formatted \<Rightarrow> piece list" where
  "render (Sprintf format a) = pieces format a"

text \<open>
  How a resource function ends: it panics, or it returns diagnostics (\<open>nil\<close> is the empty
  list). With it come the resource data as the function left it and the remote calls it
  issued, oldest first.
\<close>

datatype outcome = Panicked panic | Returned "Diagnostic list"

record op_result =
  outcome :: outcome
  data :: ResourceData
  calls :: "api_call list"

definition afterCalls :: "api_call list \<Rightarrow> op_result \<Rightarrow> op_result" where
  "afterCalls cs r = r\<lparr>calls := cs @ calls r\<rparr>"

text \<open>
  The diagnostics a function returned, each as its severity and the text of its summary;
  none if it panicked.
\<close>

definition rendered :: "outcome \<Rightarrow> (Severity \<times> piece list) list" where
  "rendered out =
     (case out of
        Panicked p \<Rightarrow> []
      | Returned ds \<Rightarrow> map (\<lambda>d. (Severity d, render (Summary d))) ds)"

subsection \<open>The schema\<close>

text \<open>
  A validation function takes the value and the attribute's key and returns warnings and
  errors. \<open>validation.StringInSlice(valid, false)\<close> and \<open>validation.IntAtMost(max)\<close> of the
  plugin SDK: a value of the wrong type is an error, then a string must be one of
  \<open>valid\<close> (compared exactly, as the file passes \<open>false\<close> for \<open>ignoreCase\<close>), an int must
  not exceed \<open>max\<close>.
\<close>

type_synonym SchemaValidateFunc = "go_value \<Rightarrow> string \<Rightarrow> string list \<times> formatted list"

definition StringInSlice :: "string list \<Rightarrow> SchemaValidateFunc" where
  "StringInSlice valid i k =
     (case i of
        VString v \<Rightarrow>
          if v \<in> set valid then ([], [])
          else ([], [Sprintf ''expected %s to be one of %v, got %s''
                       [ArgString k, ArgStrings valid, ArgString v]])
      | _ \<Rightarrow> ([], [Sprintf ''expected type of %s to be string'' [ArgString k]]))"

definition IntAtMost :: "go_int \<Rightarrow> SchemaValidateFunc" where
  "IntAtMost max' i k =
     (case i of
        VInt v \<Rightarrow>
          if max' <s v
          then ([], [Sprintf ''expected %s to be at most (%d), got %d''
                       [ArgString k, ArgInt max', ArgInt v]])
          else ([], [])
      | _ \<Rightarrow> ([], [Sprintf ''expected type of %s to be integer'' [ArgString k]]))"

datatype ValueType = TypeBool | TypeInt | TypeString | TypeList | TypeSet

text \<open>
  \<open>schema.Schema\<close> with the fields the file sets, and what \<open>Elem\<close> points to: a schema
  (the element type of a set) or a resource (the attributes of a block). The
  \<open>DiffSuppressFunc\<close> of \<open>function_name\<close> calls \<open>GetFunctionNameFromARN\<close>, which is declared
  elsewhere in the package, and is not part of the model.
\<close>

datatype Schema =
  Schema (Type: ValueType) (Required: bool) (Optional: bool) (Computed: bool)
    (ForceNew: bool) (MaxItems: nat) (ValidateFunc: "SchemaValidateFunc option")
    (Elem: "Elem option")
and Elem =
    ElemSchema Schema
  | ElemResource "(string \<times> Schema) list"

text \<open>A schema with only its type set; the other fields have Go's zero values.\<close>

definition ofType :: "ValueType \<Rightarrow> Schema" where
  "ofType t = Schema t False False False False 0 None None"

text \<open>The attributes of the \<open>cors\<close> block.\<close>

definition corsSchema :: "(string \<times> Schema) list" where
  "corsSchema =
     [(''allow_credentials'', Schema TypeBool False True False False 0 None None),
      (''allow_headers'',
         Schema TypeSet False True False False 0 None (Some (ElemSchema (ofType TypeString)))),
      (''allow_methods'',
         Schema TypeSet False True False False 0 None (Some (ElemSchema (ofType TypeString)))),
      (''allow_origins'',
         Schema TypeSet False True False False 0 None (Some (ElemSchema (ofType TypeString)))),
      (''expose_headers'',
         Schema TypeSet False True False False 0 None (Some (ElemSchema (ofType TypeString)))),
      (''max_age'', Schema TypeInt False True False False 0 (Some (IntAtMost 86400)) None)]"

text \<open>The \<open>Schema\<close> map of the resource that \<open>ResourceFunctionUrl\<close> returns.\<close>

definition ResourceFunctionUrl :: "(string \<times> Schema) list" where
  "ResourceFunctionUrl =
     [(''authorization_type'',
         Schema TypeString True False False False 0
           (Some (StringInSlice FunctionUrlAuthType_Values)) None),
      (''cors'',
         Schema TypeList False True False False 1 None (Some (ElemResource corsSchema))),
      (''function_arn'', Schema TypeString False False True False 0 None None),
      (''function_name'', Schema TypeString True False False True 0 None None),
      (''function_url'', Schema TypeString False False True False 0 None None),
      (''qualifier'', Schema TypeString False True False True 0 None None)]"

text \<open>
  The errors the validation function of attribute \<open>k\<close> reports for the value \<open>v\<close>; an
  attribute without one reports none. The plugin SDK rejects a configuration for which
  this list is not empty before any function of the resource runs.
\<close>

definition validationErrors :: "(string \<times> Schema) list \<Rightarrow> string \<Rightarrow> go_value \<Rightarrow> formatted list" where
  "validationErrors m k v =
     (case map_of m k of
        None \<Rightarrow> []
      | Some s \<Rightarrow> (case ValidateFunc s of None \<Rightarrow> [] | Some f \<Rightarrow> snd (f v k)))"

subsection \<open>Values of the schema's types\<close>

text \<open>
  The plugin SDK holds every attribute as a value of its schema type, and \<open>d.Get\<close>
  returns it so: a \<open>bool\<close>, an \<open>int\<close>, a \<open>string\<close>, a \<open>[]interface{}\<close> for a list and a
  \<open>*schema.Set\<close> for a set. A block conforms to the schemas of its attributes if it is a
  map that holds a value of the right type under every attribute.
\<close>

fun hasType :: "ValueType \<Rightarrow> go_value \<Rightarrow> bool" where
  "hasType TypeBool (VBool b) = True"
| "hasType TypeInt (VInt n) = True"
| "hasType TypeString (VString s) = True"
| "hasType TypeList (VList xs) = True"
| "hasType TypeSet (VSet xs) = True"
| "hasType t v = False"

definition conformsTo :: "(string \<times> Schema) list \<Rightarrow> go_value \<Rightarrow> bool" where
  "conformsTo m v =
     (case v of
        VMap entries \<Rightarrow> list_all (\<lambda>(k, s). hasType (Type s) (mapIndex entries k)) m
      | _ \<Rightarrow> False)"

text \<open>
  \<open>d.Set\<close> converts what it is given to the schema type of the attribute: a \<open>nil\<close>
  becomes the zero value of the type, and a slice given for a set becomes the set of its
  elements. (\<open>d.Set\<close> returns an error for a value it cannot convert; the file ignores the
  result of \<open>d.Set\<close>, and passes none.)
\<close>

fun writeField :: "ValueType \<Rightarrow> go_value \<Rightarrow> go_value" where
  "writeField TypeBool v = (case v of VBool b \<Rightarrow> VBool b | _ \<Rightarrow> VBool False)"
| "writeField TypeInt v = (case v of VInt n \<Rightarrow> VInt n | _ \<Rightarrow> VInt 0)"
| "writeField TypeString v = (case v of VString s \<Rightarrow> VString s | _ \<Rightarrow> VString [])"
| "writeField TypeList v = (case v of VList xs \<Rightarrow> VList xs | _ \<Rightarrow> VList [])"
| "writeField TypeSet v =
     (case v of VList xs \<Rightarrow> VSet (remdups xs) | VSet xs \<Rightarrow> VSet xs | _ \<Rightarrow> VSet [])"

definition writeBlock :: "(string \<times> Schema) list \<Rightarrow> go_value \<Rightarrow> go_value" where
  "writeBlock m v =
     (let entries = (case v of VMap es \<Rightarrow> es | _ \<Rightarrow> [])
      in VMap (map (\<lambda>(k, s). (k, writeField (Type s) (mapIndex entries k))) m))"

subsection \<open>The CORS block\<close>

text \<open>
  \<open>expandFunctionUrlCorsConfigs\<close>. \<open>flex.ExpandStringList\<close> belongs to another package of
  the provider and is a parameter here.
\<close>

definition expandFunctionUrlCorsConfigs ::
  "(go_value list \<Rightarrow> string list) \<Rightarrow> go_value list \<Rightarrow> panic + Cors" where
  "expandFunctionUrlCorsConfigs ExpandStringList urlConfigMap =
     (if length urlConfigMap = 1 \<and> urlConfigMap ! 0 \<noteq> VNil then
        andThen (asMap (urlConfigMap ! 0)) (\<lambda>config.
        andThen (asBool (mapIndex config ''allow_credentials'')) (\<lambda>allowCredentials.
        andThen (asList (mapIndex config ''allow_headers'')) (\<lambda>allowHeaders.
        andThen (asList (mapIndex config ''allow_methods'')) (\<lambda>allowMethods.
        andThen (asList (mapIndex config ''allow_origins'')) (\<lambda>allowOrigins.
        andThen (asList (mapIndex config ''expose_headers'')) (\<lambda>exposeHeaders.
        andThen (asInt (mapIndex config ''max_age'')) (\<lambda>maxAge.
          Inr \<lparr>AllowCredentials = Some allowCredentials,
               AllowHeaders =
                 (if length allowHeaders > 0 then Some (ExpandStringList allowHeaders) else None),
               AllowMethods =
                 (if length allowMethods > 0 then Some (ExpandStringList allowMethods) else None),
               AllowOrigins =
                 (if length allowOrigins > 0 then Some (ExpandStringList allowOrigins) else None),
               ExposeHeaders =
                 (if length exposeHeaders > 0 then Some (ExpandStringList exposeHeaders) else None),
               MaxAge = (if 0 <s maxAge then Some maxAge else None)\<rparr>)))))))
      else
        Inr \<lparr>AllowCredentials = None, AllowHeaders = None, AllowMethods = None,
             AllowOrigins = None, ExposeHeaders = None, MaxAge = None\<rparr>)"

text \<open>
  \<open>flattenFunctionUrlCorsConfigs\<close>: \<open>nil\<close> for a \<open>nil\<close> block, else one map of the six
  settings. A \<open>nil\<close> pointer or slice is \<open>VNil\<close>, any other the value behind it.
\<close>

definition ptrBool :: "bool option \<Rightarrow> go_value" where
  "ptrBool p = (case p of None \<Rightarrow> VNil | Some b \<Rightarrow> VBool b)"

definition ptrStrings :: "string list option \<Rightarrow> go_value" where
  "ptrStrings p = (case p of None \<Rightarrow> VNil | Some xs \<Rightarrow> VList (map VString xs))"

definition ptrInt64 :: "go_int option \<Rightarrow> go_value" where
  "ptrInt64 p = (case p of None \<Rightarrow> VNil | Some n \<Rightarrow> VInt n)"

definition flattenFunctionUrlCorsConfigs :: "Cors option \<Rightarrow> go_value list" where
  "flattenFunctionUrlCorsConfigs cors' =
     (case cors' of
        None \<Rightarrow> []
      | Some c \<Rightarrow>
          [VMap [(''allow_credentials'', ptrBool (AllowCredentials c)),
                 (''allow_headers'', ptrStrings (AllowHeaders c)),
                 (''allow_methods'', ptrStrings (AllowMethods c)),
                 (''allow_origins'', ptrStrings (AllowOrigins c)),
                 (''expose_headers'', ptrStrings (ExposeHeaders c)),
                 (''max_age'', ptrInt64 (MaxAge c))]])"

text \<open>
  \<open>if v, ok := d.GetOk("qualifier"); ok { input.Qualifier = aws.String(v.(string)) }\<close>,
  which every request of this file starts from.
\<close>

definition qualifierOf :: "ResourceData \<Rightarrow> string option" where
  "qualifierOf d = (case GetOk_string (qualifier d) of (v, ok) \<Rightarrow> if ok then Some v else None)"

subsection \<open>Read\<close>

definition getRequest :: "ResourceData \<Rightarrow> GetFunctionUrlConfigInput" where
  "getRequest d = \<lparr>get_FunctionName = Some (function_name d), get_Qualifier = qualifierOf d\<rparr>"

text \<open>
  \<open>resourceFunctionURLRead\<close>. On an error the type assertion to \<open>awserr.Error\<close>, the
  comparison of the code and the new-resource mark decide between dropping the resource
  (\<open>d.SetId("")\<close>, \<open>nil\<close> diagnostics) and an error diagnostic. On success the four
  attributes are set from the output; \<open>d.Set\<close> stores the flattened CORS block as a block
  of the schema, its list-like settings as sets.
\<close>

definition resourceFunctionURLRead :: "LambdaConn \<Rightarrow> ResourceData \<Rightarrow> op_result" where
  "resourceFunctionURLRead conn d =
     (let input = getRequest d in
      case GetFunctionUrlConfig conn input of
        Inl err \<Rightarrow>
          if awsErrCode err = Some ErrCodeResourceNotFoundException \<and> \<not> IsNewResource d
          then \<lparr>outcome = Returned [], data = SetId d [],
                calls = [GetFunctionUrlConfigCall input]\<rparr>
          else \<lparr>outcome = Returned
                  (Errorf ''error getting Lambda Function Url Config (%s): %w''
                     [ArgString (ID d), ArgError err]),
                data = d, calls = [GetFunctionUrlConfigCall input]\<rparr>
      | Inr output \<Rightarrow>
          \<lparr>outcome = Returned [],
           data = d\<lparr>authorization_type := StringValue (got_AuthType output),
                    cors := map (writeBlock corsSchema)
                              (flattenFunctionUrlCorsConfigs (got_Cors output)),
                    function_arn := StringValue (got_FunctionArn output),
                    function_url := StringValue (got_FunctionUrl output)\<rparr>,
           calls = [GetFunctionUrlConfigCall input]\<rparr>)"

subsection \<open>Create\<close>

text \<open>
  The request of \<open>resourceFunctionURLCreate\<close> (the lines up to the remote call): the CORS
  block is expanded only if \<open>d.GetOk("cors")\<close> reports a non-empty list.
\<close>

definition createRequest ::
  "(go_value list \<Rightarrow> string list) \<Rightarrow> ResourceData \<Rightarrow> panic + CreateFunctionUrlConfigInput" where
  "createRequest ExpandStringList d =
     (let name = function_name d in
      andThen
        (case GetOk_list (cors d) of
           (v, ok) \<Rightarrow>
             if ok \<and> length v > 0
             then andThen (expandFunctionUrlCorsConfigs ExpandStringList v) (\<lambda>c. Inr (Some c))
             else Inr None)
        (\<lambda>cors'.
           Inr \<lparr>create_AuthType = Some (authorization_type d),
                create_Cors = cors',
                create_FunctionName = Some name,
                create_Qualifier = qualifierOf d\<rparr>))"

text \<open>The permission request that \<open>resourceFunctionURLCreate\<close> builds when it adds one.\<close>

definition permissionRequest :: "ResourceData \<Rightarrow> string \<Rightarrow> AddPermissionInput" where
  "permissionRequest d v =
     \<lparr>perm_Action = Some ''lambda:InvokeFunctionUrl'',
      perm_FunctionName = Some (function_name d),
      perm_FunctionUrlAuthType = Some v,
      perm_Principal = Some ''*'',
      perm_StatementId = Some ''FunctionURLAllowPublicAccess''\<rparr>"

definition resourceFunctionURLCreate ::
  "(go_value list \<Rightarrow> string list) \<Rightarrow> LambdaConn \<Rightarrow> ResourceData \<Rightarrow> op_result" where
  "resourceFunctionURLCreate ExpandStringList conn d =
     (let name = function_name d in
      case createRequest ExpandStringList d of
        Inl p \<Rightarrow> \<lparr>outcome = Panicked p, data = d, calls = []\<rparr>
      | Inr input \<Rightarrow>
          (case CreateFunctionUrlConfig conn input of
             Inl err \<Rightarrow>
               \<lparr>outcome = Returned
                  (Errorf ''error creating Lambda Function URL (%s): %s''
                     [ArgString name, ArgError err]),
                data = d, calls = [CreateFunctionUrlConfigCall input]\<rparr>
           | Inr output \<Rightarrow>
               (let d1 = SetId d (StringValue (created_FunctionArn output));
                    v = authorization_type d1
                in if v = FunctionUrlAuthTypeNone
                   then
                     (let pinput = permissionRequest d1 v in
                      case AddPermission conn pinput of
                        Inl err \<Rightarrow>
                          \<lparr>outcome = Returned
                             (Errorf ''error adding Lambda Function URL (%s) permission %s''
                                [ArgString (ID d1), ArgError err]),
                           data = d1,
                           calls = [CreateFunctionUrlConfigCall input, AddPermissionCall pinput]\<rparr>
                      | Inr u \<Rightarrow>
                          afterCalls [CreateFunctionUrlConfigCall input, AddPermissionCall pinput]
                            (resourceFunctionURLRead conn d1))
                   else afterCalls [CreateFunctionUrlConfigCall input]
                          (resourceFunctionURLRead conn d1))))"

subsection \<open>Update\<close>

text \<open>The request of \<open>resourceFunctionURLUpdate\<close> (the lines up to the remote call).\<close>

definition updateRequest ::
  "(go_value list \<Rightarrow> string list) \<Rightarrow> ResourceData \<Rightarrow> panic + UpdateFunctionUrlConfigInput" where
  "updateRequest ExpandStringList d =
     (let params = \<lparr>update_AuthType = None, update_Cors = None,
                    update_FunctionName = Some (function_name d),
                    update_Qualifier = qualifierOf d\<rparr>;
          params = (if HasChange d ''authorization_type''
                    then params\<lparr>update_AuthType := Some (authorization_type d)\<rparr>
                    else params)
      in if HasChange d ''cors''
         then andThen (expandFunctionUrlCorsConfigs ExpandStringList (cors d))
                (\<lambda>c. Inr (params\<lparr>update_Cors := Some c\<rparr>))
         else Inr params)"

definition resourceFunctionURLUpdate ::
  "(go_value list \<Rightarrow> string list) \<Rightarrow> LambdaConn \<Rightarrow> ResourceData \<Rightarrow> op_result" where
  "resourceFunctionURLUpdate ExpandStringList conn d =
     (case updateRequest ExpandStringList d of
        Inl p \<Rightarrow> \<lparr>outcome = Panicked p, data = d, calls = []\<rparr>
      | Inr params \<Rightarrow>
          (case UpdateFunctionUrlConfig conn params of
             Inl err \<Rightarrow>
               \<lparr>outcome = Returned
                  (Errorf ''error updating Lambda Function Url (%s): %s''
                     [ArgString (ID d), ArgError err]),
                data = d, calls = [UpdateFunctionUrlConfigCall params]\<rparr>
           | Inr u \<Rightarrow>
               afterCalls [UpdateFunctionUrlConfigCall params] (resourceFunctionURLRead conn d)))"

subsection \<open>Delete\<close>

definition deleteRequest :: "ResourceData \<Rightarrow> DeleteFunctionUrlConfigInput" where
  "deleteRequest d =
     \<lparr>delete_FunctionName = Some (function_name d), delete_Qualifier = qualifierOf d\<rparr>"

text \<open>
  \<open>resourceFunctionURLDelete\<close>: \<open>tfawserr.ErrCodeEquals\<close> is asked first, with the error or
  \<open>nil\<close>; any error left after it becomes a diagnostic.
\<close>

definition resourceFunctionURLDelete :: "LambdaConn \<Rightarrow> ResourceData \<Rightarrow> op_result" where
  "resourceFunctionURLDelete conn d =
     (let params = deleteRequest d;
          err = (case DeleteFunctionUrlConfig conn params of Inl e \<Rightarrow> Some e | Inr u \<Rightarrow> None)
      in if ErrCodeEquals err ErrCodeResourceNotFoundException
         then \<lparr>outcome = Returned [], data = d, calls = [DeleteFunctionUrlConfigCall params]\<rparr>
         else (case err of
                 Some e \<Rightarrow>
                   \<lparr>outcome = Returned
                      (Errorf ''error deleting Lambda Function Url (%s): %s''
                         [ArgString (ID d), ArgError e]),
                    data = d, calls = [DeleteFunctionUrlConfigCall params]\<rparr>
               | None \<Rightarrow>
                   \<lparr>outcome = Returned [], data = d,
                    calls = [DeleteFunctionUrlConfigCall params]\<rparr>))"

subsection \<open>Example inputs\<close>

text \<open>
  Concrete resource data, connections and errors, on which the theorems below are
  evaluated: a connection on which every request succeeds, and one that answers every
  request with a given error.
\<close>

definition exampleExpand :: "go_value list \<Rightarrow> string list" where
  "exampleExpand vs = concat (map (\<lambda>v. case v of VString s \<Rightarrow> [s] | _ \<Rightarrow> []) vs)"

definition exampleData :: ResourceData where
  "exampleData =
     \<lparr>ID = ''arn:aws:lambda:eu-west-1:123456789012:function:hello'', NewResource = False,
      authorization_type = ''NONE'', cors = [], function_arn = [],
      function_name = ''hello'', function_url = [], qualifier = ''live'',
      changed = (\<lambda>k. k = ''authorization_type'')\<rparr>"

definition exampleOutput :: GetFunctionUrlConfigOutput where
  "exampleOutput =
     \<lparr>got_AuthType = Some ''NONE'', got_Cors = None,
      got_FunctionArn = Some ''arn:aws:lambda:eu-west-1:123456789012:function:hello'',
      got_FunctionUrl = Some ''https://abc.lambda-url.eu-west-1.on.aws/''\<rparr>"

definition okConn :: LambdaConn where
  "okConn =
     \<lparr>CreateFunctionUrlConfig = (\<lambda>i. Inr \<lparr>created_FunctionArn =
         Some ''arn:aws:lambda:eu-west-1:123456789012:function:hello''\<rparr>),
      AddPermission = (\<lambda>i. Inr ()),
      GetFunctionUrlConfig = (\<lambda>i. Inr exampleOutput),
      UpdateFunctionUrlConfig = (\<lambda>i. Inr ()),
      DeleteFunctionUrlConfig = (\<lambda>i. Inr ())\<rparr>"

definition failingConn :: "go_error \<Rightarrow> LambdaConn" where
  "failingConn e =
     \<lparr>CreateFunctionUrlConfig = (\<lambda>i. Inl e),
      AddPermission = (\<lambda>i. Inl e),
      GetFunctionUrlConfig = (\<lambda>i. Inl e),
      UpdateFunctionUrlConfig = (\<lambda>i. Inl e),
      DeleteFunctionUrlConfig = (\<lambda>i. Inl e)\<rparr>"

definition notFound :: go_error where
  "notFound = AwsError ''ResourceNotFoundException'' ''The resource you requested does not exist.''"

definition throttled :: go_error where
  "throttled = AwsError ''TooManyRequestsException'' ''Rate exceeded''"

definition exampleCreateRequest :: CreateFunctionUrlConfigInput where
  "exampleCreateRequest =
     \<lparr>create_AuthType = Some ''NONE'', create_Cors = None,
      create_FunctionName = Some ''hello'', create_Qualifier = Some ''live''\<rparr>"

definition exampleCreated :: CreateFunctionUrlConfigOutput where
  "exampleCreated =
     \<lparr>created_FunctionArn = Some ''arn:aws:lambda:eu-west-1:123456789012:function:hello''\<rparr>"

definition exampleUpdateRequest :: UpdateFunctionUrlConfigInput where
  "exampleUpdateRequest =
     \<lparr>update_AuthType = Some ''NONE'', update_Cors = None,
      update_FunctionName = Some ''hello'', update_Qualifier = Some ''live''\<rparr>"

text \<open>
  Resource data with a CORS block as \<open>d.Get\<close> returns it, the list-like settings held as
  sets, with no qualifier and with \<open>cors\<close> as the only changed attribute.
\<close>

definition exampleCorsBlock :: go_value where
  "exampleCorsBlock =
     VMap [(''allow_credentials'', VBool True),
           (''allow_headers'', VSet []),
           (''allow_methods'', VSet [VString ''GET'']),
           (''allow_origins'', VSet [VString ''*'']),
           (''expose_headers'', VSet []),
           (''max_age'', VInt 3600)]"

definition exampleCorsData :: ResourceData where
  "exampleCorsData =
     exampleData\<lparr>cors := [exampleCorsBlock], qualifier := [],
       changed := (\<lambda>k. k = ''cors'')\<rparr>"

section \<open>Properties\<close>

subsection \<open>strings.Split on a colon\<close>

text \<open>
  The pieces of a string cut at a character: there is one more piece than the character
  occurs, no piece contains it, and the pieces joined by it give the string back.
\<close>

lemma splitFrom_no_sep:
  "c \<notin> set s \<Longrightarrow> splitFrom [c] acc s = [rev acc @ s]"
  by (induction s arbitrary: acc) auto

lemma splitFrom_length:
  "length (splitFrom [c] acc s) = Suc (count_list s c)"
  by (induction s arbitrary: acc) auto

lemma splitFrom_not_Nil: "splitFrom [c] acc s \<noteq> []"
  using splitFrom_length [of c acc s] by auto

lemma splitFrom_pieces:
  "x \<in> set (splitFrom [c] acc s) \<Longrightarrow> c \<notin> set acc \<Longrightarrow> c \<notin> set x"
proof (induction s arbitrary: acc)
  case Nil
  then show ?case by auto
next
  case (Cons a s)
  show ?case
  proof (cases "a = c")
    case True
    with Cons.prems have "x = rev acc \<or> x \<in> set (splitFrom [c] [] s)" by auto
    then show ?thesis using Cons.IH [of "[]"] Cons.prems(2) by auto
  next
    case False
    with Cons.prems have "x \<in> set (splitFrom [c] (a # acc) s)" by auto
    then show ?thesis using Cons.IH [of "a # acc"] Cons.prems(2) False by auto
  qed
qed

lemma splitFrom_join:
  "concat (map (\<lambda>x. x @ [c]) (butlast (splitFrom [c] acc s))) @ last (splitFrom [c] acc s)
     = rev acc @ s"
  by (induction s arbitrary: acc) (auto simp: splitFrom_not_Nil)

lemma count_list_pos: "c \<in> set s \<Longrightarrow> 0 < count_list s c"
  by (induction s) auto

lemma Split_colon_single: "CHR '':'' \<notin> set s \<Longrightarrow> Split s '':'' = [s]"
  by (simp add: Split_def splitFrom_no_sep)

lemma Split_colon_length: "length (Split s '':'') = Suc (count_list s CHR '':'')"
  by (simp add: Split_def splitFrom_length)

lemma Split_colon_two: "CHR '':'' \<in> set s \<Longrightarrow> 2 \<le> length (Split s '':'')"
  using count_list_pos [of "CHR '':''" s] by (simp add: Split_colon_length)

lemma Split_colon_pieces: "x \<in> set (Split s '':'') \<Longrightarrow> CHR '':'' \<notin> set x"
  using splitFrom_pieces [of x "CHR '':''" "[]" s] by (simp add: Split_def)

lemma Split_colon_join:
  "concat (map (\<lambda>x. x @ '':'') (butlast (Split s '':''))) @ last (Split s '':'') = s"
  using splitFrom_join [of "CHR '':''" "[]" s] by (simp add: Split_def)

subsection \<open>Import\<close>

lemma import_ok:
  assumes "2 \<le> length (Split (ID d) '':'')"
  shows "resourceFunctionUrlImport d =
           Inr ([d\<lparr>function_name := Split (ID d) '':'' ! (length (Split (ID d) '':'') - 2),
                   qualifier := last (Split (ID d) '':'')\<rparr>], None)"
proof -
  let ?segs = "Split (ID d) '':''"
  have n: "?segs \<noteq> []" using assms by auto
  have a: "sliceIndex ?segs (int (length ?segs) - 2) = Inr (?segs ! (length ?segs - 2))"
    using assms by (simp add: sliceIndex_def nat_diff_distrib')
  have b: "sliceIndex ?segs (int (length ?segs) - 1) = Inr (last ?segs)"
    using assms n by (simp add: sliceIndex_def last_conv_nth nat_diff_distrib')
  show ?thesis
    by (simp add: resourceFunctionUrlImport_def Let_def andThen_def a b)
qed

lemma import_panics:
  assumes "CHR '':'' \<notin> set (ID d)"
  shows "resourceFunctionUrlImport d = Inl (IndexOutOfRange (- 1) 1)"
  using assms
  by (simp add: resourceFunctionUrlImport_def Let_def andThen_def sliceIndex_def
      Split_colon_single)

text \<open>
  Claim C4 fails as stated: an import ID without a colon has a single segment, and the
  import panics on the index \<open>-1\<close> instead of setting the two attributes.
\<close>

theorem import_without_colon_counterexample:
  "resourceFunctionUrlImport (exampleData\<lparr>ID := ''hello''\<rparr>) = Inl (IndexOutOfRange (- 1) 1)"
  by (simp add: resourceFunctionUrlImport_def Let_def andThen_def sliceIndex_def Split_def)

text \<open>
  Claim C4, amended: for every import ID that contains at least one colon,
  \<open>resourceFunctionUrlImport\<close> splits it at the colons, sets \<open>function_name\<close> to the
  second-to-last segment and \<open>qualifier\<close> to the last segment, and returns the resource
  data with a \<open>nil\<close> error.
\<close>

theorem import_sets_last_two_segments:
  assumes "CHR '':'' \<in> set (ID d)"
  shows "2 \<le> length (Split (ID d) '':'') \<and>
         resourceFunctionUrlImport d =
           Inr ([d\<lparr>function_name := last (butlast (Split (ID d) '':'')),
                   qualifier := last (Split (ID d) '':'')\<rparr>], None)"
proof -
  let ?segs = "Split (ID d) '':''"
  have two: "2 \<le> length ?segs" using assms by (rule Split_colon_two)
  then have "butlast ?segs \<noteq> []" by (cases ?segs) auto
  then have "last (butlast ?segs) = ?segs ! (length ?segs - 2)"
    using two by (simp add: last_conv_nth nth_butlast numeral_2_eq_2)
  with two show ?thesis by (simp add: import_ok)
qed

theorem import_sets_last_two_segments_witness:
  "CHR '':'' \<in> set ''hello:live'' \<and>
   resourceFunctionUrlImport (exampleData\<lparr>ID := ''hello:live''\<rparr>) =
     Inr ([exampleData\<lparr>ID := ''hello:live'', function_name := ''hello'',
             qualifier := ''live''\<rparr>], None)"
  using import_sets_last_two_segments [of "exampleData\<lparr>ID := ''hello:live''\<rparr>"]
  by (simp add: Split_def)

text \<open>
  Claim C5 fails as stated: the import is not total over all import ID strings. On an ID
  without a colon it returns nothing; it panics.
\<close>

theorem import_not_total_counterexample:
  "\<not> (\<exists>r. resourceFunctionUrlImport (exampleData\<lparr>ID := ''hello-live''\<rparr>) = Inr r)"
  by (simp add: resourceFunctionUrlImport_def Let_def andThen_def sliceIndex_def Split_def)

text \<open>
  Claim C5, amended: \<open>resourceFunctionUrlImport\<close> is total exactly over the import IDs
  that contain at least one colon. For an ID containing no colon, \<open>strings.Split\<close> yields
  a single segment (the ID itself) and the access to the second-to-last element, at index
  \<open>len - 2 = -1\<close>, is out of bounds: the function panics. So the import returns if and
  only if the ID contains a colon.
\<close>

theorem import_returns_iff_colon:
  "((\<exists>r. resourceFunctionUrlImport d = Inr r) \<longleftrightarrow> CHR '':'' \<in> set (ID d)) \<and>
   (CHR '':'' \<notin> set (ID d) \<longrightarrow>
      Split (ID d) '':'' = [ID d] \<and>
      resourceFunctionUrlImport d = Inl (IndexOutOfRange (- 1) 1))"
proof (cases "CHR '':'' \<in> set (ID d)")
  case True
  then have "2 \<le> length (Split (ID d) '':'')" by (rule Split_colon_two)
  then show ?thesis using True by (simp add: import_ok)
next
  case False
  then show ?thesis by (simp add: import_panics Split_colon_single)
qed

theorem import_returns_iff_colon_witness:
  "CHR '':'' \<notin> set ''hello-live'' \<and>
   Split ''hello-live'' '':'' = [''hello-live''] \<and>
   resourceFunctionUrlImport (exampleData\<lparr>ID := ''hello-live''\<rparr>) =
     Inl (IndexOutOfRange (- 1) 1) \<and>
   CHR '':'' \<in> set ''hello:'' \<and>
   (\<exists>r. resourceFunctionUrlImport (exampleData\<lparr>ID := ''hello:''\<rparr>) = Inr r)"
  using import_returns_iff_colon [of "exampleData\<lparr>ID := ''hello-live''\<rparr>"]
    import_returns_iff_colon [of "exampleData\<lparr>ID := ''hello:''\<rparr>"]
  by simp

subsection \<open>The example inputs, evaluated\<close>

lemma example_createRequest:
  "createRequest exampleExpand exampleData = Inr exampleCreateRequest"
  by (simp add: createRequest_def Let_def andThen_def GetOk_list_def qualifierOf_def
      GetOk_string_def exampleData_def exampleCreateRequest_def)

lemma example_createRequest_iam:
  "createRequest exampleExpand (exampleData\<lparr>authorization_type := ''AWS_IAM''\<rparr>) =
     Inr (exampleCreateRequest\<lparr>create_AuthType := Some ''AWS_IAM''\<rparr>)"
  by (simp add: createRequest_def Let_def andThen_def GetOk_list_def qualifierOf_def
      GetOk_string_def exampleData_def exampleCreateRequest_def)

lemma example_updateRequest:
  "updateRequest exampleExpand exampleData = Inr exampleUpdateRequest"
  by (simp add: updateRequest_def Let_def andThen_def HasChange_def qualifierOf_def
      GetOk_string_def exampleData_def exampleUpdateRequest_def)

lemma example_ids:
  "ID exampleData = ''arn:aws:lambda:eu-west-1:123456789012:function:hello''"
  "function_name exampleData = ''hello''"
  "authorization_type exampleData = FunctionUrlAuthTypeNone"
  by (simp_all add: exampleData_def FunctionUrlAuthTypeNone_def)

lemma notFound_code: "awsErrCode notFound = Some ErrCodeResourceNotFoundException"
  by (simp add: notFound_def ErrCodeResourceNotFoundException_def)

subsection \<open>The CORS block as the schema declares it\<close>

text \<open>
  The schema declares the four list-like settings of the CORS block as sets, while
  \<open>expandFunctionUrlCorsConfigs\<close> asserts \<open>[]interface{}\<close> for each of them. On every
  block that conforms to the schema the first of these assertions, on \<open>allow_headers\<close>,
  panics. The blocks a successful read stores conform to the schema.
\<close>

lemma hasType_writeField: "hasType t (writeField t v)"
  by (cases t; cases v; simp)

lemma hasType_Bool: "hasType TypeBool x \<Longrightarrow> \<exists>b. x = VBool b"
  by (cases x) auto

lemma hasType_Set: "hasType TypeSet x \<Longrightarrow> \<exists>xs. x = VSet xs"
  by (cases x) auto

lemma expand_conforming_block_panics:
  assumes "conformsTo corsSchema block"
  shows "expandFunctionUrlCorsConfigs X [block] = Inl TypeAssertion"
proof -
  from assms obtain entries where b: "block = VMap entries"
    by (cases block) (auto simp: conformsTo_def)
  from assms b have "hasType TypeBool (mapIndex entries ''allow_credentials'')"
    and "hasType TypeSet (mapIndex entries ''allow_headers'')"
    by (simp_all add: conformsTo_def corsSchema_def)
  then obtain ac hs where "mapIndex entries ''allow_credentials'' = VBool ac"
    and "mapIndex entries ''allow_headers'' = VSet hs"
    using hasType_Bool hasType_Set by blast
  then show ?thesis
    by (simp add: b expandFunctionUrlCorsConfigs_def andThen_def asMap_def asBool_def
        asList_def)
qed

lemma writeBlock_conforms: "conformsTo corsSchema (writeBlock corsSchema v)"
  by (simp add: conformsTo_def writeBlock_def Let_def corsSchema_def mapIndex_def
      hasType_writeField del: writeField.simps)

lemma read_stores_conforming_blocks:
  assumes "GetFunctionUrlConfig conn (getRequest d) = Inr out"
  shows "list_all (conformsTo corsSchema) (cors (data (resourceFunctionURLRead conn d)))"
  using assms
  by (simp add: resourceFunctionURLRead_def Let_def list_all_iff writeBlock_conforms)

lemma example_block_conforms: "conformsTo corsSchema exampleCorsBlock"
  by (simp add: conformsTo_def corsSchema_def exampleCorsBlock_def mapIndex_def)

text \<open>
  So a create with a CORS block, and an update whose CORS block has changed, panic
  before any request is sent, whenever the block is one the plugin SDK hands over.
\<close>

lemma update_conforming_cors_panics:
  assumes "HasChange d ''cors''" and "cors d = [block]" and "conformsTo corsSchema block"
  shows "resourceFunctionURLUpdate X conn d =
           \<lparr>outcome = Panicked TypeAssertion, data = d, calls = []\<rparr>"
  using assms(1,2) expand_conforming_block_panics [OF assms(3), of X]
  by (simp add: resourceFunctionURLUpdate_def updateRequest_def Let_def andThen_def)

lemma create_conforming_cors_panics:
  assumes "cors d = [block]" and "conformsTo corsSchema block"
  shows "resourceFunctionURLCreate X conn d =
           \<lparr>outcome = Panicked TypeAssertion, data = d, calls = []\<rparr>"
  using assms(1) expand_conforming_block_panics [OF assms(2), of X]
  by (simp add: resourceFunctionURLCreate_def createRequest_def Let_def andThen_def
      GetOk_list_def)

subsection \<open>The remote calls of each operation\<close>

lemma read_calls:
  "calls (resourceFunctionURLRead conn d) = [GetFunctionUrlConfigCall (getRequest d)]"
  by (simp add: resourceFunctionURLRead_def Let_def split: sum.splits)

lemma delete_calls:
  "calls (resourceFunctionURLDelete conn d) = [DeleteFunctionUrlConfigCall (deleteRequest d)]"
  by (simp add: resourceFunctionURLDelete_def Let_def split: sum.splits option.splits)

lemma create_calls:
  "calls (resourceFunctionURLCreate X conn d) =
     (case createRequest X d of
        Inl p \<Rightarrow> []
      | Inr request \<Rightarrow>
          (case CreateFunctionUrlConfig conn request of
             Inl err \<Rightarrow> [CreateFunctionUrlConfigCall request]
           | Inr created \<Rightarrow>
               (if authorization_type d = FunctionUrlAuthTypeNone
                then (case AddPermission conn (permissionRequest d FunctionUrlAuthTypeNone) of
                        Inl err \<Rightarrow>
                          [CreateFunctionUrlConfigCall request,
                           AddPermissionCall (permissionRequest d FunctionUrlAuthTypeNone)]
                      | Inr u \<Rightarrow>
                          [CreateFunctionUrlConfigCall request,
                           AddPermissionCall (permissionRequest d FunctionUrlAuthTypeNone),
                           GetFunctionUrlConfigCall (getRequest d)])
                else [CreateFunctionUrlConfigCall request,
                      GetFunctionUrlConfigCall (getRequest d)])))"
  by (simp add: resourceFunctionURLCreate_def Let_def afterCalls_def read_calls SetId_def
      permissionRequest_def getRequest_def qualifierOf_def
      split: sum.splits)

lemma update_calls:
  "calls (resourceFunctionURLUpdate X conn d) =
     (case updateRequest X d of
        Inl p \<Rightarrow> []
      | Inr params \<Rightarrow>
          (case UpdateFunctionUrlConfig conn params of
             Inl err \<Rightarrow> [UpdateFunctionUrlConfigCall params]
           | Inr u \<Rightarrow> [UpdateFunctionUrlConfigCall params,
                       GetFunctionUrlConfigCall (getRequest d)]))"
  by (simp add: resourceFunctionURLUpdate_def afterCalls_def read_calls split: sum.splits)

lemma updateRequest_panics:
  "updateRequest X d = Inl p \<longleftrightarrow>
     HasChange d ''cors'' \<and> expandFunctionUrlCorsConfigs X (cors d) = Inl p"
  by (auto simp: updateRequest_def Let_def andThen_def split: sum.splits if_splits)

subsection \<open>Errors of the remote service\<close>

lemma outcome_afterCalls: "outcome (afterCalls cs r) = outcome r"
  by (simp add: afterCalls_def)

text \<open>
  Claim C1: for every delete invocation, if the remote \<open>DeleteFunctionUrlConfig\<close> call
  returns an error whose code is \<open>ResourceNotFoundException\<close>,
  \<open>resourceFunctionURLDelete\<close> returns \<open>nil\<close> diagnostics and not an error: deleting a
  function URL that is already deleted succeeds.
\<close>

theorem delete_not_found_returns_nil:
  assumes "DeleteFunctionUrlConfig conn (deleteRequest d) = Inl e"
    and "awsErrCode e = Some ErrCodeResourceNotFoundException"
  shows "resourceFunctionURLDelete conn d =
           \<lparr>outcome = Returned [], data = d,
            calls = [DeleteFunctionUrlConfigCall (deleteRequest d)]\<rparr>"
proof -
  from assms(2) obtain msg where "e = AwsError ErrCodeResourceNotFoundException msg"
    by (cases e) auto
  with assms(1) show ?thesis
    by (simp add: resourceFunctionURLDelete_def Let_def ErrCodeEquals_def)
qed

theorem delete_not_found_returns_nil_witness:
  "DeleteFunctionUrlConfig (failingConn notFound) (deleteRequest exampleData) = Inl notFound \<and>
   awsErrCode notFound = Some ErrCodeResourceNotFoundException \<and>
   outcome (resourceFunctionURLDelete (failingConn notFound) exampleData) = Returned []"
proof -
  have h1: "DeleteFunctionUrlConfig (failingConn notFound) (deleteRequest exampleData)
              = Inl notFound"
    by (simp add: failingConn_def)
  from delete_not_found_returns_nil [OF h1 notFound_code] h1 notFound_code
  show ?thesis by simp
qed




text \<open>
  Claim C3: in \<open>resourceFunctionURLCreate\<close>, if and only if the configured
  \<open>authorization_type\<close> equals \<open>"NONE"\<close>, after the function URL is created an
  \<open>AddPermission\<close> call is issued with Action \<open>"lambda:InvokeFunctionUrl"\<close>, Principal
  \<open>"*"\<close> and StatementId \<open>"FunctionURLAllowPublicAccess"\<close>; for every other
  \<open>authorization_type\<close> no permission is added. Nor is one added when the function URL
  is not created.
\<close>

theorem create_adds_permission_iff_none:
  "(authorization_type d \<noteq> ''NONE'' \<longrightarrow>
      filter isAddPermission (calls (resourceFunctionURLCreate X conn d)) = []) \<and>
   (createRequest X d = Inr request \<and> CreateFunctionUrlConfig conn request = Inr created \<and>
    authorization_type d = ''NONE'' \<longrightarrow>
      take 2 (calls (resourceFunctionURLCreate X conn d)) =
        [CreateFunctionUrlConfigCall request,
         AddPermissionCall
           \<lparr>perm_Action = Some ''lambda:InvokeFunctionUrl'',
            perm_FunctionName = Some (function_name d),
            perm_FunctionUrlAuthType = Some ''NONE'',
            perm_Principal = Some ''*'',
            perm_StatementId = Some ''FunctionURLAllowPublicAccess''\<rparr>] \<and>
      filter isAddPermission (calls (resourceFunctionURLCreate X conn d)) =
        [AddPermissionCall
           \<lparr>perm_Action = Some ''lambda:InvokeFunctionUrl'',
            perm_FunctionName = Some (function_name d),
            perm_FunctionUrlAuthType = Some ''NONE'',
            perm_Principal = Some ''*'',
            perm_StatementId = Some ''FunctionURLAllowPublicAccess''\<rparr>]) \<and>
   (createRequest X d = Inr request \<and> CreateFunctionUrlConfig conn request = Inl e \<longrightarrow>
      filter isAddPermission (calls (resourceFunctionURLCreate X conn d)) = [])"
  by (auto simp: create_calls permissionRequest_def FunctionUrlAuthTypeNone_def
      split: sum.splits)

theorem create_adds_permission_iff_none_witness:
  "createRequest exampleExpand exampleData = Inr exampleCreateRequest \<and>
   CreateFunctionUrlConfig okConn exampleCreateRequest = Inr exampleCreated \<and>
   authorization_type exampleData = ''NONE'' \<and>
   filter isAddPermission (calls (resourceFunctionURLCreate exampleExpand okConn exampleData)) =
     [AddPermissionCall
        \<lparr>perm_Action = Some ''lambda:InvokeFunctionUrl'',
         perm_FunctionName = Some ''hello'',
         perm_FunctionUrlAuthType = Some ''NONE'',
         perm_Principal = Some ''*'',
         perm_StatementId = Some ''FunctionURLAllowPublicAccess''\<rparr>] \<and>
   authorization_type (exampleData\<lparr>authorization_type := ''AWS_IAM''\<rparr>) \<noteq> ''NONE'' \<and>
   filter isAddPermission
     (calls (resourceFunctionURLCreate exampleExpand okConn
               (exampleData\<lparr>authorization_type := ''AWS_IAM''\<rparr>))) = [] \<and>
   CreateFunctionUrlConfig (failingConn throttled) exampleCreateRequest = Inl throttled \<and>
   filter isAddPermission
     (calls (resourceFunctionURLCreate exampleExpand (failingConn throttled) exampleData)) = []"
proof -
  have h1: "CreateFunctionUrlConfig okConn exampleCreateRequest = Inr exampleCreated"
    by (simp add: okConn_def exampleCreated_def)
  have h2: "authorization_type exampleData = ''NONE''"
    by (simp add: exampleData_def)
  have h3: "authorization_type (exampleData\<lparr>authorization_type := ''AWS_IAM''\<rparr>) \<noteq> ''NONE''"
    by simp
  have h4: "CreateFunctionUrlConfig (failingConn throttled) exampleCreateRequest = Inl throttled"
    by (simp add: failingConn_def)
  have n: "function_name exampleData = ''hello''"
    by (simp add: exampleData_def)
  from create_adds_permission_iff_none
         [where X = exampleExpand and d = exampleData and conn = okConn
            and request = exampleCreateRequest and created = exampleCreated]
       example_createRequest h1 h2 n
  have a: "filter isAddPermission
             (calls (resourceFunctionURLCreate exampleExpand okConn exampleData)) =
           [AddPermissionCall
              \<lparr>perm_Action = Some ''lambda:InvokeFunctionUrl'',
               perm_FunctionName = Some ''hello'',
               perm_FunctionUrlAuthType = Some ''NONE'',
               perm_Principal = Some ''*'',
               perm_StatementId = Some ''FunctionURLAllowPublicAccess''\<rparr>]"
    by simp
  from create_adds_permission_iff_none
         [where X = exampleExpand and conn = okConn
            and d = "exampleData\<lparr>authorization_type := ''AWS_IAM''\<rparr>"] h3
  have b: "filter isAddPermission
             (calls (resourceFunctionURLCreate exampleExpand okConn
                       (exampleData\<lparr>authorization_type := ''AWS_IAM''\<rparr>))) = []"
    by blast
  from create_adds_permission_iff_none
         [where X = exampleExpand and d = exampleData and conn = "failingConn throttled"
            and request = exampleCreateRequest and e = throttled]
       example_createRequest h4
  have c: "filter isAddPermission
             (calls (resourceFunctionURLCreate exampleExpand (failingConn throttled)
                       exampleData)) = []"
    by blast
  from example_createRequest h1 h2 h3 h4 a b c show ?thesis by blast
qed

text \<open>
  Claim C6 fails as stated: the schema carries validation functions. An
  \<open>authorization_type\<close> outside the SDK's list of values and a \<open>max_age\<close> above 86400 are
  rejected with an error before any remote call.
\<close>

theorem schema_rejects_values_counterexample:
  "validationErrors ResourceFunctionUrl ''authorization_type'' (VString ''PUBLIC'') =
     [Sprintf ''expected %s to be one of %v, got %s''
        [ArgString ''authorization_type'', ArgStrings [''NONE'', ''AWS_IAM''],
         ArgString ''PUBLIC'']] \<and>
   validationErrors corsSchema ''max_age'' (VInt 86401) =
     [Sprintf ''expected %s to be at most (%d), got %d''
        [ArgString ''max_age'', ArgInt 86400, ArgInt 86401]]"
  by (simp add: validationErrors_def ResourceFunctionUrl_def corsSchema_def StringInSlice_def
      IntAtMost_def FunctionUrlAuthType_Values_def FunctionUrlAuthTypeNone_def
      FunctionUrlAuthTypeAwsIam_def)

text \<open>
  Claim C6, amended: the schema validates two attributes locally, before the API call:
  an \<open>authorization_type\<close> string is accepted if and only if it is one of the SDK's
  function-URL authorization types (\<open>"NONE"\<close>, \<open>"AWS_IAM"\<close>), and a \<open>max_age\<close> integer of
  the \<open>cors\<close> block is accepted if and only if it is at most 86400.
\<close>

theorem schema_validation_accepts_iff:
  "(validationErrors ResourceFunctionUrl ''authorization_type'' (VString s) = [] \<longleftrightarrow>
      s = ''NONE'' \<or> s = ''AWS_IAM'') \<and>
   map_of ResourceFunctionUrl ''cors'' =
      Some (Schema TypeList False True False False 1 None (Some (ElemResource corsSchema))) \<and>
   (validationErrors corsSchema ''max_age'' (VInt n) = [] \<longleftrightarrow> sint n \<le> 86400)"
proof -
  have "sint (86400 :: 64 word) = 86400" by simp
  then have "(86400 <s n) = (86400 < sint n)" by (simp add: word_sless_alt)
  then show ?thesis
    by (auto simp: validationErrors_def ResourceFunctionUrl_def corsSchema_def
        StringInSlice_def IntAtMost_def FunctionUrlAuthType_Values_def
        FunctionUrlAuthTypeNone_def FunctionUrlAuthTypeAwsIam_def)
qed

theorem schema_validation_accepts_iff_witness:
  "validationErrors ResourceFunctionUrl ''authorization_type'' (VString ''AWS_IAM'') = [] \<and>
   validationErrors ResourceFunctionUrl ''authorization_type'' (VString ''aws_iam'') \<noteq> [] \<and>
   validationErrors corsSchema ''max_age'' (VInt 86400) = [] \<and>
   validationErrors corsSchema ''max_age'' (VInt (- 1)) = [] \<and>
   validationErrors corsSchema ''max_age'' (VInt 86401) \<noteq> []"
  using schema_validation_accepts_iff [of "''AWS_IAM''" 86400]
    schema_validation_accepts_iff [of "''aws_iam''" "- 1"]
    schema_validation_accepts_iff [of "''NONE''" 86401]
  by simp

text \<open>
  Claim C7 fails as stated: a create on which every request succeeds issues three remote
  calls when \<open>authorization_type\<close> is \<open>"NONE"\<close>, and an update issues two.
\<close>

theorem create_issues_three_calls_counterexample:
  "length (calls (resourceFunctionURLCreate exampleExpand okConn exampleData)) = 3 \<and>
   length (calls (resourceFunctionURLUpdate exampleExpand okConn exampleData)) = 2"
  by (simp add: create_calls update_calls createRequest_def updateRequest_def Let_def
      andThen_def GetOk_list_def HasChange_def okConn_def exampleData_def
      FunctionUrlAuthTypeNone_def)

text \<open>
  Claim C7, amended: read and delete each issue exactly one remote call
  (\<open>GetFunctionUrlConfig\<close>, \<open>DeleteFunctionUrlConfig\<close>). Create, once its request is
  built, issues \<open>CreateFunctionUrlConfig\<close>, then \<open>AddPermission\<close> when
  \<open>authorization_type\<close> is \<open>"NONE"\<close>, then \<open>GetFunctionUrlConfig\<close> (it ends in
  \<open>resourceFunctionURLRead\<close>), and stops at the first of them that fails: at most three
  calls. Update, once its request is built, issues \<open>UpdateFunctionUrlConfig\<close> and, only
  when that succeeds, \<open>GetFunctionUrlConfig\<close>: at most two calls.
\<close>

theorem calls_per_operation:
  "calls (resourceFunctionURLRead conn d) = [GetFunctionUrlConfigCall (getRequest d)] \<and>
   calls (resourceFunctionURLDelete conn d) = [DeleteFunctionUrlConfigCall (deleteRequest d)] \<and>
   length (calls (resourceFunctionURLCreate X conn d)) \<le> 3 \<and>
   length (calls (resourceFunctionURLUpdate X conn d)) \<le> 2 \<and>
   (createRequest X d = Inr request \<and> CreateFunctionUrlConfig conn request = Inl e \<longrightarrow>
      calls (resourceFunctionURLCreate X conn d) = [CreateFunctionUrlConfigCall request]) \<and>
   (createRequest X d = Inr request \<and> CreateFunctionUrlConfig conn request = Inr created \<and>
    authorization_type d = FunctionUrlAuthTypeNone \<and>
    AddPermission conn (permissionRequest d FunctionUrlAuthTypeNone) = Inl e \<longrightarrow>
      calls (resourceFunctionURLCreate X conn d) =
        [CreateFunctionUrlConfigCall request,
         AddPermissionCall (permissionRequest d FunctionUrlAuthTypeNone)]) \<and>
   (createRequest X d = Inr request \<and> CreateFunctionUrlConfig conn request = Inr created \<and>
    authorization_type d = FunctionUrlAuthTypeNone \<and>
    AddPermission conn (permissionRequest d FunctionUrlAuthTypeNone) = Inr u \<longrightarrow>
      calls (resourceFunctionURLCreate X conn d) =
        [CreateFunctionUrlConfigCall request,
         AddPermissionCall (permissionRequest d FunctionUrlAuthTypeNone),
         GetFunctionUrlConfigCall (getRequest d)]) \<and>
   (createRequest X d = Inr request \<and> CreateFunctionUrlConfig conn request = Inr created \<and>
    authorization_type d \<noteq> FunctionUrlAuthTypeNone \<longrightarrow>
      calls (resourceFunctionURLCreate X conn d) =
        [CreateFunctionUrlConfigCall request, GetFunctionUrlConfigCall (getRequest d)]) \<and>
   (updateRequest X d = Inr params \<and> UpdateFunctionUrlConfig conn params = Inl e \<longrightarrow>
      calls (resourceFunctionURLUpdate X conn d) = [UpdateFunctionUrlConfigCall params]) \<and>
   (updateRequest X d = Inr params \<and> UpdateFunctionUrlConfig conn params = Inr u \<longrightarrow>
      calls (resourceFunctionURLUpdate X conn d) =
        [UpdateFunctionUrlConfigCall params, GetFunctionUrlConfigCall (getRequest d)])"
  by (auto simp: read_calls delete_calls create_calls update_calls split: sum.splits)

theorem calls_per_operation_witness:
  "calls (resourceFunctionURLCreate exampleExpand (failingConn throttled) exampleData) =
     [CreateFunctionUrlConfigCall exampleCreateRequest] \<and>
   calls (resourceFunctionURLCreate exampleExpand
            (okConn\<lparr>AddPermission := (\<lambda>i. Inl throttled)\<rparr>) exampleData) =
     [CreateFunctionUrlConfigCall exampleCreateRequest,
      AddPermissionCall (permissionRequest exampleData FunctionUrlAuthTypeNone)] \<and>
   calls (resourceFunctionURLCreate exampleExpand okConn exampleData) =
     [CreateFunctionUrlConfigCall exampleCreateRequest,
      AddPermissionCall (permissionRequest exampleData FunctionUrlAuthTypeNone),
      GetFunctionUrlConfigCall (getRequest exampleData)] \<and>
   calls (resourceFunctionURLCreate exampleExpand okConn
            (exampleData\<lparr>authorization_type := ''AWS_IAM''\<rparr>)) =
     [CreateFunctionUrlConfigCall (exampleCreateRequest\<lparr>create_AuthType := Some ''AWS_IAM''\<rparr>),
      GetFunctionUrlConfigCall (getRequest (exampleData\<lparr>authorization_type := ''AWS_IAM''\<rparr>))] \<and>
   calls (resourceFunctionURLUpdate exampleExpand (failingConn throttled) exampleData) =
     [UpdateFunctionUrlConfigCall exampleUpdateRequest] \<and>
   calls (resourceFunctionURLUpdate exampleExpand okConn exampleData) =
     [UpdateFunctionUrlConfigCall exampleUpdateRequest,
      GetFunctionUrlConfigCall (getRequest exampleData)]"
proof -
  have h1: "CreateFunctionUrlConfig okConn exampleCreateRequest = Inr exampleCreated"
    "CreateFunctionUrlConfig okConn (exampleCreateRequest\<lparr>create_AuthType := Some ''AWS_IAM''\<rparr>)
       = Inr exampleCreated"
    "CreateFunctionUrlConfig (okConn\<lparr>AddPermission := (\<lambda>i. Inl throttled)\<rparr>)
       exampleCreateRequest = Inr exampleCreated"
    by (simp_all add: okConn_def exampleCreated_def)
  have h2: "AddPermission okConn (permissionRequest exampleData FunctionUrlAuthTypeNone) = Inr ()"
    "UpdateFunctionUrlConfig okConn exampleUpdateRequest = Inr ()"
    "AddPermission (okConn\<lparr>AddPermission := (\<lambda>i. Inl throttled)\<rparr>)
       (permissionRequest exampleData FunctionUrlAuthTypeNone) = Inl throttled"
    by (simp_all add: okConn_def)
  have h3: "authorization_type (exampleData\<lparr>authorization_type := ''AWS_IAM''\<rparr>)
              \<noteq> FunctionUrlAuthTypeNone"
    by (simp add: FunctionUrlAuthTypeNone_def)
  have h4: "CreateFunctionUrlConfig (failingConn throttled) exampleCreateRequest = Inl throttled"
    "UpdateFunctionUrlConfig (failingConn throttled) exampleUpdateRequest = Inl throttled"
    by (simp_all add: failingConn_def)
  from calls_per_operation
         [where X = exampleExpand and d = exampleData and conn = "failingConn throttled"
            and request = exampleCreateRequest and e = throttled
            and params = exampleUpdateRequest]
       example_createRequest example_updateRequest h4
  have a: "calls (resourceFunctionURLCreate exampleExpand (failingConn throttled) exampleData) =
             [CreateFunctionUrlConfigCall exampleCreateRequest]"
    and e: "calls (resourceFunctionURLUpdate exampleExpand (failingConn throttled) exampleData) =
             [UpdateFunctionUrlConfigCall exampleUpdateRequest]"
    by blast+
  from calls_per_operation
         [where X = exampleExpand and d = exampleData
            and conn = "okConn\<lparr>AddPermission := (\<lambda>i. Inl throttled)\<rparr>"
            and request = exampleCreateRequest and created = exampleCreated
            and e = throttled]
       example_createRequest example_ids(3) h1(3) h2(3)
  have b: "calls (resourceFunctionURLCreate exampleExpand
            (okConn\<lparr>AddPermission := (\<lambda>i. Inl throttled)\<rparr>) exampleData) =
     [CreateFunctionUrlConfigCall exampleCreateRequest,
      AddPermissionCall (permissionRequest exampleData FunctionUrlAuthTypeNone)]"
    by blast
  from calls_per_operation
         [where X = exampleExpand and d = exampleData and conn = okConn
            and request = exampleCreateRequest and created = exampleCreated and u = "()"
            and params = exampleUpdateRequest]
       example_createRequest example_updateRequest example_ids(3) h1(1) h2(1,2)
  have c: "calls (resourceFunctionURLCreate exampleExpand okConn exampleData) =
             [CreateFunctionUrlConfigCall exampleCreateRequest,
              AddPermissionCall (permissionRequest exampleData FunctionUrlAuthTypeNone),
              GetFunctionUrlConfigCall (getRequest exampleData)]"
    and f: "calls (resourceFunctionURLUpdate exampleExpand okConn exampleData) =
             [UpdateFunctionUrlConfigCall exampleUpdateRequest,
              GetFunctionUrlConfigCall (getRequest exampleData)]"
    by blast+
  from calls_per_operation
         [where X = exampleExpand and d = "exampleData\<lparr>authorization_type := ''AWS_IAM''\<rparr>"
            and conn = okConn
            and request = "exampleCreateRequest\<lparr>create_AuthType := Some ''AWS_IAM''\<rparr>"
            and created = exampleCreated]
       example_createRequest_iam h1(2) h3
  have d: "calls (resourceFunctionURLCreate exampleExpand okConn
                    (exampleData\<lparr>authorization_type := ''AWS_IAM''\<rparr>)) =
             [CreateFunctionUrlConfigCall
                (exampleCreateRequest\<lparr>create_AuthType := Some ''AWS_IAM''\<rparr>),
              GetFunctionUrlConfigCall
                (getRequest (exampleData\<lparr>authorization_type := ''AWS_IAM''\<rparr>))]"
    by blast
  from a b c d e f show ?thesis by blast
qed

subsection \<open>The diagnostic of a remote error\<close>

text \<open>
  What holds of every operation: a remote error that is not taken as not-found makes the
  operation return exactly one diagnostic, of severity Error, whatever the error's code.
  (Not-found is decided by the type assertion in read, and there only for a resource that
  is not new; by \<open>tfawserr.ErrCodeEquals\<close> in delete; create and update have no such
  case.) The text of the diagnostic differs: create, update and delete format the error
  with \<open>%s\<close>, which writes the error's own text, while read, and with it the read that
  closes create and update, formats it with \<open>%w\<close>, which \<open>fmt.Sprintf\<close> reports as a
  bad verb.
\<close>

lemma remote_errors_become_error_diagnostics:
  "(createRequest X d = Inr request \<and> CreateFunctionUrlConfig conn request = Inl e \<longrightarrow>
      rendered (outcome (resourceFunctionURLCreate X conn d)) =
        [(Error, [Lit ''error creating Lambda Function URL ('', Str (function_name d),
                  Lit ''): '', ErrorText e])]) \<and>
   (createRequest X d = Inr request \<and> CreateFunctionUrlConfig conn request = Inr created \<and>
    authorization_type d = FunctionUrlAuthTypeNone \<and>
    AddPermission conn (permissionRequest d FunctionUrlAuthTypeNone) = Inl e \<longrightarrow>
      rendered (outcome (resourceFunctionURLCreate X conn d)) =
        [(Error, [Lit ''error adding Lambda Function URL ('',
                  Str (StringValue (created_FunctionArn created)),
                  Lit '') permission '', ErrorText e])]) \<and>
   (GetFunctionUrlConfig conn (getRequest d) = Inl e \<and>
    (awsErrCode e = Some ErrCodeResourceNotFoundException \<longrightarrow> IsNewResource d) \<longrightarrow>
      rendered (outcome (resourceFunctionURLRead conn d)) =
        [(Error, [Lit ''error getting Lambda Function Url Config ('', Str (ID d),
                  Lit ''): '', BadVerb CHR ''w'' (ArgError e)])]) \<and>
   (updateRequest X d = Inr params \<and> UpdateFunctionUrlConfig conn params = Inl e \<longrightarrow>
      rendered (outcome (resourceFunctionURLUpdate X conn d)) =
        [(Error, [Lit ''error updating Lambda Function Url ('', Str (ID d),
                  Lit ''): '', ErrorText e])]) \<and>
   (updateRequest X d = Inr params \<and> UpdateFunctionUrlConfig conn params = Inr u \<and>
    GetFunctionUrlConfig conn (getRequest d) = Inl e \<and>
    (awsErrCode e = Some ErrCodeResourceNotFoundException \<longrightarrow> IsNewResource d) \<longrightarrow>
      rendered (outcome (resourceFunctionURLUpdate X conn d)) =
        [(Error, [Lit ''error getting Lambda Function Url Config ('', Str (ID d),
                  Lit ''): '', BadVerb CHR ''w'' (ArgError e)])]) \<and>
   (DeleteFunctionUrlConfig conn (deleteRequest d) = Inl e \<and>
    \<not> ErrCodeEquals (Some e) ErrCodeResourceNotFoundException \<longrightarrow>
      rendered (outcome (resourceFunctionURLDelete conn d)) =
        [(Error, [Lit ''error deleting Lambda Function Url ('', Str (ID d),
                  Lit ''): '', ErrorText e])])"
proof -
  have create: "createRequest X d = Inr request \<and> CreateFunctionUrlConfig conn request = Inl e \<longrightarrow>
      rendered (outcome (resourceFunctionURLCreate X conn d)) =
        [(Error, [Lit ''error creating Lambda Function URL ('', Str (function_name d),
                  Lit ''): '', ErrorText e])]"
    by (simp add: resourceFunctionURLCreate_def Let_def rendered_def Errorf_def lit_def verb_def)
  have perm: "createRequest X d = Inr request \<and> CreateFunctionUrlConfig conn request = Inr created \<and>
    authorization_type d = FunctionUrlAuthTypeNone \<and>
    AddPermission conn (permissionRequest d FunctionUrlAuthTypeNone) = Inl e \<longrightarrow>
      rendered (outcome (resourceFunctionURLCreate X conn d)) =
        [(Error, [Lit ''error adding Lambda Function URL ('',
                  Str (StringValue (created_FunctionArn created)),
                  Lit '') permission '', ErrorText e])]"
    by (simp add: resourceFunctionURLCreate_def Let_def SetId_def permissionRequest_def
        rendered_def Errorf_def lit_def verb_def)
  have rd: "GetFunctionUrlConfig conn (getRequest d) = Inl e \<and>
    (awsErrCode e = Some ErrCodeResourceNotFoundException \<longrightarrow> IsNewResource d) \<longrightarrow>
      rendered (outcome (resourceFunctionURLRead conn d)) =
        [(Error, [Lit ''error getting Lambda Function Url Config ('', Str (ID d),
                  Lit ''): '', BadVerb CHR ''w'' (ArgError e)])]"
    by (auto simp: resourceFunctionURLRead_def Let_def rendered_def Errorf_def lit_def verb_def)
  have update: "updateRequest X d = Inr params \<and> UpdateFunctionUrlConfig conn params = Inl e \<longrightarrow>
      rendered (outcome (resourceFunctionURLUpdate X conn d)) =
        [(Error, [Lit ''error updating Lambda Function Url ('', Str (ID d),
                  Lit ''): '', ErrorText e])]"
    by (simp add: resourceFunctionURLUpdate_def rendered_def Errorf_def lit_def verb_def)
  have update_read: "updateRequest X d = Inr params \<and>
    UpdateFunctionUrlConfig conn params = Inr u \<and>
    GetFunctionUrlConfig conn (getRequest d) = Inl e \<and>
    (awsErrCode e = Some ErrCodeResourceNotFoundException \<longrightarrow> IsNewResource d) \<longrightarrow>
      rendered (outcome (resourceFunctionURLUpdate X conn d)) =
        [(Error, [Lit ''error getting Lambda Function Url Config ('', Str (ID d),
                  Lit ''): '', BadVerb CHR ''w'' (ArgError e)])]"
    using rd by (simp add: resourceFunctionURLUpdate_def outcome_afterCalls)
  have delete: "DeleteFunctionUrlConfig conn (deleteRequest d) = Inl e \<and>
    \<not> ErrCodeEquals (Some e) ErrCodeResourceNotFoundException \<longrightarrow>
      rendered (outcome (resourceFunctionURLDelete conn d)) =
        [(Error, [Lit ''error deleting Lambda Function Url ('', Str (ID d),
                  Lit ''): '', ErrorText e])]"
    by (simp add: resourceFunctionURLDelete_def Let_def rendered_def Errorf_def lit_def
        verb_def)
  from create perm rd update update_read delete show ?thesis by blast
qed

text \<open>
  Claim C8 (for every create, read, update or delete invocation in which the remote API
  returns an error whose code is not \<open>ResourceNotFoundException\<close>, the operation returns
  an error diagnostic wrapping the remote error unchanged) does not hold of the read: when
  \<open>GetFunctionUrlConfig\<close> answers with a \<open>TooManyRequestsException\<close>, the read returns one
  Error diagnostic, but its text ends in the bad-verb report for \<open>%w\<close> and does not hold
  the error's own text. On the same error the delete, which formats with \<open>%s\<close>, returns
  the error's text unchanged.
\<close>

theorem read_error_text_is_bad_verb:
  "GetFunctionUrlConfig (failingConn throttled) (getRequest exampleData) = Inl throttled \<and>
   awsErrCode throttled = Some ''TooManyRequestsException'' \<and>
   rendered (outcome (resourceFunctionURLRead (failingConn throttled) exampleData)) =
     [(Error, [Lit ''error getting Lambda Function Url Config ('',
               Str ''arn:aws:lambda:eu-west-1:123456789012:function:hello'',
               Lit ''): '', BadVerb CHR ''w'' (ArgError throttled)])] \<and>
   rendered (outcome (resourceFunctionURLDelete (failingConn throttled) exampleData)) =
     [(Error, [Lit ''error deleting Lambda Function Url ('',
               Str ''arn:aws:lambda:eu-west-1:123456789012:function:hello'',
               Lit ''): '', ErrorText throttled])]"
  by (simp add: resourceFunctionURLRead_def resourceFunctionURLDelete_def Let_def
      rendered_def Errorf_def lit_def verb_def failingConn_def throttled_def
      ErrCodeEquals_def ErrCodeResourceNotFoundException_def exampleData_def)

subsection \<open>The request of an update\<close>

text \<open>
  Every request that \<open>resourceFunctionURLUpdate\<close> builds carries FunctionName, carries
  Qualifier when one is set, AuthType if and only if \<open>authorization_type\<close> has changed and
  Cors if and only if \<open>cors\<close> has changed, and is the first remote call of the update. A
  request is built unless \<open>cors\<close> has changed and its expansion panics.
\<close>

lemma update_request_fields:
  assumes "updateRequest X d = Inr params"
  shows "update_FunctionName params = Some (function_name d) \<and>
         update_Qualifier params = (if qualifier d = [] then None else Some (qualifier d)) \<and>
         (update_AuthType params \<noteq> None \<longleftrightarrow> HasChange d ''authorization_type'') \<and>
         (HasChange d ''authorization_type'' \<longrightarrow>
            update_AuthType params = Some (authorization_type d)) \<and>
         (update_Cors params \<noteq> None \<longleftrightarrow> HasChange d ''cors'') \<and>
         (\<forall>c. update_Cors params = Some c \<longrightarrow>
            expandFunctionUrlCorsConfigs X (cors d) = Inr c) \<and>
         take 1 (calls (resourceFunctionURLUpdate X conn d)) =
           [UpdateFunctionUrlConfigCall params]"
  using assms
  by (auto simp: update_calls updateRequest_def Let_def andThen_def qualifierOf_def
      GetOk_string_def split: sum.splits if_splits)

text \<open>
  Claim C9 (the \<open>UpdateFunctionUrlConfig\<close> request always carries FunctionName, and
  carries Cors if and only if \<open>cors\<close> has changed) does not hold of an update whose CORS
  block has changed to a block with settings: the block reaches the function with its
  list-like settings as sets, as the schema declares them, the assertion of
  \<open>[]interface{}\<close> on \<open>allow_headers\<close> panics, and no request is sent at all.
\<close>

theorem update_changed_cors_block_panics:
  "HasChange exampleCorsData ''cors'' \<and>
   cors exampleCorsData =
     [VMap [(''allow_credentials'', VBool True),
            (''allow_headers'', VSet []),
            (''allow_methods'', VSet [VString ''GET'']),
            (''allow_origins'', VSet [VString ''*'']),
            (''expose_headers'', VSet []),
            (''max_age'', VInt 3600)]] \<and>
   list_all (conformsTo corsSchema) (cors exampleCorsData) \<and>
   resourceFunctionURLUpdate exampleExpand okConn exampleCorsData =
     \<lparr>outcome = Panicked TypeAssertion, data = exampleCorsData, calls = []\<rparr>"
proof -
  have h: "HasChange exampleCorsData ''cors''"
    by (simp add: HasChange_def exampleCorsData_def)
  have c: "cors exampleCorsData = [exampleCorsBlock]"
    by (simp add: exampleCorsData_def)
  from update_conforming_cors_panics [OF h c example_block_conforms] h c example_block_conforms
  show ?thesis by (simp add: exampleCorsBlock_def)
qed

end
